theory Spec2Isabelle
  imports Main
begin

section \<open>Python values and exceptions\<close>

text \<open>
  The adapter is dynamically typed: its constructor stores whatever it is given, the
  serialised form is a \<open>Dict[str, Any]\<close>, and the records that come back from the
  wrapped index are JSON objects or document indices. Such values are modelled by
  \<open>py_value\<close>; a \<open>dict\<close> with string keys is an association list read with
  \<open>map_of\<close>.
\<close>

datatype py_value =
    PNone
  | PBool bool
  | PInt int
  | PStr string
  | PList "py_value list"
  | PDict "(string \<times> py_value) list"

text \<open>The ways a call of a Python function raises \<open>TypeError\<close> that matter here.\<close>

datatype type_error =
    Missing_argument string
  | Unexpected_keyword string
  | Multiple_values string
  | Too_many_positional
  | Not_subscriptable
  | Bad_index
  | Not_a_mapping

text \<open>
  Exceptions are values. \<open>Exception msg\<close> is the generic \<open>raise Exception(msg)\<close>;
  the remaining constructors are the built-in and framework exception classes that the
  adapter, the interpreter or the wrapped library raise.
\<close>

datatype error =
    Exception string
  | NotImplementedError
  | TypeError type_error
  | KeyError string
  | IndexError
  | AttributeError string
  | ValueError string
  | FileNotFoundError string
  | DeserializationError string

text \<open>Truth value testing, as \<open>if v:\<close> does it.\<close>

fun truthy :: "py_value \<Rightarrow> bool" where
  "truthy PNone = False"
| "truthy (PBool b) = b"
| "truthy (PInt i) = (i \<noteq> 0)"
| "truthy (PStr s) = (s \<noteq> [])"
| "truthy (PList xs) = (xs \<noteq> [])"
| "truthy (PDict kvs) = (kvs \<noteq> [])"

text \<open>The subscription \<open>v[k]\<close> with a string key \<open>k\<close>.\<close>

fun getitem :: "py_value \<Rightarrow> string \<Rightarrow> error + py_value" where
  "getitem (PDict kvs) k =
     (case map_of kvs k of None \<Rightarrow> Inl (KeyError k) | Some v \<Rightarrow> Inr v)"
| "getitem (PStr s) k = Inl (TypeError Bad_index)"
| "getitem (PList xs) k = Inl (TypeError Bad_index)"
| "getitem PNone k = Inl (TypeError Not_subscriptable)"
| "getitem (PBool b) k = Inl (TypeError Not_subscriptable)"
| "getitem (PInt i) k = Inl (TypeError Not_subscriptable)"

section \<open>The framework's types\<close>

text \<open>
  \<open>Document\<close> is the framework's dataclass; the adapter only ever constructs it, with
  the keyword \<open>content\<close> or the keyword \<open>id\<close>. The class is not part of this
  repository. Of its fields the model keeps \<open>id\<close> and \<open>content\<close>; a \<open>content\<close> of
  \<open>None\<close> is the field's default (unset).

  The framework does not keep every id it is given: after storing the fields its
  \<open>__post_init__\<close> runs \<open>self.id = self.id or self._create_id()\<close>, so an id that was
  not passed (the default is the empty string) or that is falsy is replaced by a hash
  generated from the other fields. \<open>Given v\<close> is an id kept as passed, \<open>Generated c\<close>
  the hash generated for a document of content \<open>c\<close>; the hash is a non-empty string,
  hence never one of the falsy values it replaces.
\<close>

datatype document_id = Given py_value | Generated "py_value option"

record Document =
  doc_id :: document_id
  content :: "py_value option"

text \<open>
  \<open>Document_new i c\<close> is the call of the class with the keyword \<open>id\<close> as \<open>i\<close> and
  the keyword \<open>content\<close> as \<open>c\<close>, \<open>None\<close> standing for a keyword that is not passed.
\<close>

definition Document_new :: "py_value option \<Rightarrow> py_value option \<Rightarrow> Document" where
  "Document_new id_kw content_kw =
     \<lparr>doc_id =
        (case id_kw of
           None \<Rightarrow> Generated content_kw
         | Some v \<Rightarrow> if truthy v then Given v else Generated content_kw),
      content = content_kw\<rparr>"

datatype DuplicatePolicy = NONE | SKIP | OVERWRITE | FAIL

section \<open>The wrapped library\<close>

text \<open>
  The index object of the wrapped library. The adapter reads its \<open>scores\<close> dictionary
  and calls its \<open>retrieve\<close> method; everything else it holds is opaque (\<open>internals\<close>).
\<close>

record 'i BM25 =
  scores :: "(string \<times> py_value) list"
  internals :: 'i

text \<open>
  The entry points of the wrapped library and of the stemmer package that the adapter
  calls. They are parameters of the model: \<open>'i\<close> is the index's internal state, \<open>'s\<close> a
  stemmer object and \<open>'t\<close> a tokenised query. Each may raise.
  \<^item> \<open>BM25_load d lc mm\<close> is \<open>bm25s.BM25.load(d, load_corpus=lc, mmap=mm)\<close>;
  \<^item> \<open>Stemmer lang\<close> is \<open>Stemmer.Stemmer(lang)\<close>;
  \<^item> \<open>tokenize q st\<close> is \<open>bm25s.tokenize(q, stemmer=st)\<close>;
  \<^item> \<open>retrieve ix toks k r\<close> is \<open>ix.retrieve(toks, k=k, return_as=r)\<close>, a
    two-dimensional array with one row of results per query.
\<close>

record ('i, 's, 't) library =
  BM25_load :: "py_value \<Rightarrow> py_value \<Rightarrow> py_value \<Rightarrow> error + 'i BM25"
  Stemmer :: "py_value \<Rightarrow> error + 's"
  tokenize :: "string \<Rightarrow> 's \<Rightarrow> error + 't"
  retrieve :: "'i BM25 \<Rightarrow> 't \<Rightarrow> int \<Rightarrow> string \<Rightarrow> error + py_value list list"

section \<open>The document store\<close>

record ('i, 's) BM25S_DocumentStore =
  corpus_dirpath :: py_value
  load_corpus :: py_value
  mmap :: py_value
  stemmer_lang :: py_value
  bm25s :: "'i BM25"
  stemmer :: 's

text \<open>
  The body of \<open>__init__\<close>: the four parameters are stored as given, then the index is
  loaded and the stemmer created. An exception of either call leaves no store behind.
\<close>

definition BM25S_DocumentStore_init ::
  "('i, 's, 't) library \<Rightarrow> py_value \<Rightarrow> py_value \<Rightarrow> py_value \<Rightarrow> py_value
     \<Rightarrow> error + ('i, 's) BM25S_DocumentStore" where
  "BM25S_DocumentStore_init lib dirpath lc mm lang =
     (case BM25_load lib dirpath lc mm of
        Inl e \<Rightarrow> Inl e
      | Inr ix \<Rightarrow>
          (case Stemmer lib lang of
             Inl e \<Rightarrow> Inl e
           | Inr st \<Rightarrow>
               Inr \<lparr>corpus_dirpath = dirpath, load_corpus = lc, mmap = mm,
                    stemmer_lang = lang, bm25s = ix, stemmer = st\<rparr>))"

text \<open>
  The methods take the store and return their result together with the store as it is
  after the call. None of them assigns to \<open>self\<close>.
\<close>

definition count_documents ::
  "('i, 's) BM25S_DocumentStore \<Rightarrow> (error + py_value) \<times> ('i, 's) BM25S_DocumentStore" where
  "count_documents self = (getitem (PDict (scores (bm25s self))) ''num_docs'', self)"

definition filter_documents ::
  "('i, 's) BM25S_DocumentStore \<Rightarrow> py_value
     \<Rightarrow> (error + Document list) \<times> ('i, 's) BM25S_DocumentStore" where
  "filter_documents self filters = (Inl NotImplementedError, self)"

definition write_documents ::
  "('i, 's) BM25S_DocumentStore \<Rightarrow> Document list \<Rightarrow> DuplicatePolicy
     \<Rightarrow> (error + int) \<times> ('i, 's) BM25S_DocumentStore" where
  "write_documents self documents policy = (Inl (Exception ''bm25s is immutable''), self)"

definition delete_documents ::
  "('i, 's) BM25S_DocumentStore \<Rightarrow> string list
     \<Rightarrow> (error + unit) \<times> ('i, 's) BM25S_DocumentStore" where
  "delete_documents self document_ids = (Inl (Exception ''bm25s is immutable''), self)"

text \<open>
  Calling the class: the signature is
  \<open>__init__(self, corpus_dirpath, load_corpus=True, mmap=True, stemmer_lang="english")\<close>.
  The interpreter binds positional arguments first. It then matches each keyword
  argument against the parameter names, raising \<open>TypeError\<close> for a name that is not a
  parameter or that a positional argument already bound; then it refuses surplus
  positional arguments; last it fills each unbound parameter from its default and
  raises \<open>TypeError\<close> for one that has none.
\<close>

fun check_keywords :: "string list \<Rightarrow> nat \<Rightarrow> (string \<times> py_value) list \<Rightarrow> type_error option" where
  "check_keywords names argcount [] = None"
| "check_keywords names argcount ((k, v) # kwargs) =
     (if k \<notin> set names then Some (Unexpected_keyword k)
      else if k \<in> set (take argcount names) then Some (Multiple_values k)
      else check_keywords names argcount kwargs)"

definition argument ::
  "nat \<Rightarrow> string \<Rightarrow> py_value option \<Rightarrow> py_value list \<Rightarrow> (string \<times> py_value) list
     \<Rightarrow> error + py_value" where
  "argument i name dflt args kwargs =
     (if i < length args then Inr (args ! i)
      else case map_of kwargs name of
             Some v \<Rightarrow> Inr v
           | None \<Rightarrow>
               (case dflt of
                  Some d \<Rightarrow> Inr d
                | None \<Rightarrow> Inl (TypeError (Missing_argument name))))"

definition BM25S_DocumentStore_call ::
  "('i, 's, 't) library \<Rightarrow> py_value list \<Rightarrow> (string \<times> py_value) list
     \<Rightarrow> error + ('i, 's) BM25S_DocumentStore" where
  "BM25S_DocumentStore_call lib args kwargs =
     (case check_keywords [''corpus_dirpath'', ''load_corpus'', ''mmap'', ''stemmer_lang'']
             (length args) kwargs of
        Some te \<Rightarrow> Inl (TypeError te)
      | None \<Rightarrow>
          if 4 < length args then Inl (TypeError Too_many_positional)
          else
            (case argument 0 ''corpus_dirpath'' None args kwargs of
               Inl e \<Rightarrow> Inl e
             | Inr dirpath \<Rightarrow>
            (case argument 1 ''load_corpus'' (Some (PBool True)) args kwargs of
               Inl e \<Rightarrow> Inl e
             | Inr lc \<Rightarrow>
            (case argument 2 ''mmap'' (Some (PBool True)) args kwargs of
               Inl e \<Rightarrow> Inl e
             | Inr mm \<Rightarrow>
            (case argument 3 ''stemmer_lang'' (Some (PStr ''english'')) args kwargs of
               Inl e \<Rightarrow> Inl e
             | Inr lang \<Rightarrow> BM25S_DocumentStore_init lib dirpath lc mm lang)))))"

subsection \<open>Serialisation\<close>

text \<open>
  \<open>to_dict\<close> and \<open>from_dict\<close> hand over to the framework's \<open>default_to_dict\<close> and
  \<open>default_from_dict\<close>, which are not part of this repository and are parameters of
  the model. A class is passed to them as its qualified name and its constructor,
  the constructor taking the keyword arguments of the call. \<open>default_to_dict\<close>
  receives the object only to read its class.
\<close>

record ('i, 's) framework =
  default_to_dict :: "string \<Rightarrow> (string \<times> py_value) list \<Rightarrow> py_value"
  default_from_dict ::
    "string \<Rightarrow> ((string \<times> py_value) list \<Rightarrow> error + ('i, 's) BM25S_DocumentStore)
       \<Rightarrow> py_value \<Rightarrow> error + ('i, 's) BM25S_DocumentStore"

definition qualified_class_name :: string where
  "qualified_class_name =
     ''haystack_integrations.document_stores.bm25s.document_store.BM25S_DocumentStore''"

definition to_dict ::
  "('i, 's) framework \<Rightarrow> ('i, 's) BM25S_DocumentStore
     \<Rightarrow> py_value \<times> ('i, 's) BM25S_DocumentStore" where
  "to_dict fw self =
     (default_to_dict fw qualified_class_name
        [(''corpus_dirpath'', corpus_dirpath self),
         (''load_corpus'', load_corpus self),
         (''mmap'', mmap self),
         (''stemmer_lang'', stemmer_lang self)],
      self)"

definition from_dict ::
  "('i, 's) framework \<Rightarrow> ('i, 's, 't) library \<Rightarrow> py_value
     \<Rightarrow> error + ('i, 's) BM25S_DocumentStore" where
  "from_dict fw lib data =
     default_from_dict fw qualified_class_name (BM25S_DocumentStore_call lib []) data"

text \<open>
  What the adapter relies on in the framework: deserialising, for a class, the
  dictionary that \<open>default_to_dict\<close> made for an object of that class calls the class
  with the keyword arguments that were serialised.
\<close>

definition serialization_contract :: "('i, 's) framework \<Rightarrow> bool" where
  "serialization_contract fw \<longleftrightarrow>
     (\<forall>cls construct kwargs.
        default_from_dict fw cls construct (default_to_dict fw cls kwargs) = construct kwargs)"

text \<open>
  The helpers as the framework documents them: the serialised form holds the class name
  under \<open>type\<close> and the keyword arguments under \<open>init_parameters\<close>; deserialising
  checks the class name and calls the class with the stored arguments.
\<close>

definition haystack_framework :: "('i, 's) framework" where
  "haystack_framework =
     \<lparr>default_to_dict =
        (\<lambda>cls kwargs. PDict [(''type'', PStr cls), (''init_parameters'', PDict kwargs)]),
      default_from_dict =
        (\<lambda>cls construct data.
           case data of
             PDict kvs \<Rightarrow>
               (case map_of kvs ''type'' of
                  None \<Rightarrow> Inl (DeserializationError ''Missing type in serialization data'')
                | Some t \<Rightarrow>
                    if t \<noteq> PStr cls
                    then Inl (DeserializationError ''Class cannot be deserialized'')
                    else
                      (case map_of kvs ''init_parameters'' of
                         None \<Rightarrow> construct []
                       | Some (PDict kwargs) \<Rightarrow> construct kwargs
                       | Some other \<Rightarrow> Inl (TypeError Not_a_mapping)))
           | other \<Rightarrow> Inl (AttributeError ''get''))\<rparr>"

subsection \<open>The test fixture\<close>

text \<open>The fixture \<open>docstore\<close> of the test module: \<open>return BM25S_DocumentStore()\<close>.\<close>

definition docstore :: "('i, 's, 't) library \<Rightarrow> error + ('i, 's) BM25S_DocumentStore" where
  "docstore lib = BM25S_DocumentStore_call lib [] []"

subsection \<open>A client of the store\<close>

text \<open>
  A call of one of the public methods, and a client that makes such calls one after the
  other, catching what they raise. \<open>perform\<close> gives the store after the call.
\<close>

datatype store_op =
    Count_documents
  | Filter_documents py_value
  | Write_documents "Document list" DuplicatePolicy
  | Delete_documents "string list"
  | To_dict

fun perform ::
  "('i, 's) framework \<Rightarrow> ('i, 's) BM25S_DocumentStore \<Rightarrow> store_op
     \<Rightarrow> ('i, 's) BM25S_DocumentStore" where
  "perform fw self Count_documents = snd (count_documents self)"
| "perform fw self (Filter_documents filters) = snd (filter_documents self filters)"
| "perform fw self (Write_documents documents policy) =
     snd (write_documents self documents policy)"
| "perform fw self (Delete_documents document_ids) = snd (delete_documents self document_ids)"
| "perform fw self To_dict = snd (to_dict fw self)"

definition perform_all ::
  "('i, 's) framework \<Rightarrow> ('i, 's) BM25S_DocumentStore \<Rightarrow> store_op list
     \<Rightarrow> ('i, 's) BM25S_DocumentStore" where
  "perform_all fw self ops = foldl (perform fw) self ops"

section \<open>The retriever\<close>

record ('i, 's) BM25S_Retriever =
  document_store :: "('i, 's) BM25S_DocumentStore"
  top_k :: int

text \<open>The body of \<open>__init__\<close>: two assignments and no check.\<close>

definition BM25S_Retriever_init ::
  "('i, 's) BM25S_DocumentStore \<Rightarrow> int \<Rightarrow> error + ('i, 's) BM25S_Retriever" where
  "BM25S_Retriever_init store k = Inr \<lparr>document_store = store, top_k = k\<rparr>"

text \<open>The calls into the wrapped library that a run makes, in the order it makes them.\<close>

datatype ('i, 's, 't) library_call =
    Tokenize string 's
  | Retrieve "'i BM25" 't int string

text \<open>\<open>rows[0]\<close> on the array that \<open>retrieve\<close> returned.\<close>

definition first_row :: "py_value list list \<Rightarrow> error + py_value list" where
  "first_row rows = (case rows of [] \<Rightarrow> Inl IndexError | row # _ \<Rightarrow> Inr row)"

text \<open>\<open>[Document(content=doc['text']) for doc in row]\<close>: the first failing subscription ends it.\<close>

fun content_documents :: "py_value list \<Rightarrow> error + Document list" where
  "content_documents [] = Inr []"
| "content_documents (doc # row) =
     (case getitem doc ''text'' of
        Inl e \<Rightarrow> Inl e
      | Inr text \<Rightarrow>
          (case content_documents row of
             Inl e \<Rightarrow> Inl e
           | Inr docs \<Rightarrow> Inr (Document_new None (Some text) # docs)))"

text \<open>\<open>[Document(id=doc) for doc in row]\<close>.\<close>

definition id_documents :: "py_value list \<Rightarrow> Document list" where
  "id_documents row = map (\<lambda>doc. Document_new (Some doc) None) row"

text \<open>
  \<open>run\<close>, with the library calls it made. \<open>documents_of_rows\<close> is the part after the
  two library calls.
\<close>

definition documents_of_rows :: "py_value \<Rightarrow> py_value list list \<Rightarrow> error + Document list" where
  "documents_of_rows lc bm25s_retrieved_docs =
     (if truthy lc
      then (case first_row bm25s_retrieved_docs of
              Inl e \<Rightarrow> Inl e
            | Inr row \<Rightarrow> content_documents row)
      else (case first_row bm25s_retrieved_docs of
              Inl e \<Rightarrow> Inl e
            | Inr row \<Rightarrow> Inr (id_documents row)))"

definition run_traced ::
  "('i, 's, 't) library \<Rightarrow> ('i, 's) BM25S_Retriever \<Rightarrow> string
     \<Rightarrow> (error + Document list) \<times> ('i, 's, 't) library_call list" where
  "run_traced lib self query =
     (case tokenize lib query (stemmer (document_store self)) of
        Inl e \<Rightarrow> (Inl e, [Tokenize query (stemmer (document_store self))])
      | Inr query_tokens \<Rightarrow>
          (case retrieve lib (bm25s (document_store self)) query_tokens (top_k self)
                  ''documents'' of
             Inl e \<Rightarrow>
               (Inl e,
                [Tokenize query (stemmer (document_store self)),
                 Retrieve (bm25s (document_store self)) query_tokens (top_k self)
                   ''documents''])
           | Inr bm25s_retrieved_docs \<Rightarrow>
               (documents_of_rows (load_corpus (document_store self)) bm25s_retrieved_docs,
                [Tokenize query (stemmer (document_store self)),
                 Retrieve (bm25s (document_store self)) query_tokens (top_k self)
                   ''documents''])))"

definition run ::
  "('i, 's, 't) library \<Rightarrow> ('i, 's) BM25S_Retriever \<Rightarrow> string \<Rightarrow> error + Document list" where
  "run lib self query = fst (run_traced lib self query)"

section \<open>A small instance of the wrapped library\<close>

text \<open>
  An index of two documents under the directory \<open>index\<close>, used to instantiate the
  theorems below. When the corpus is loaded a result is the stored record, otherwise
  it is the document's index; \<open>retrieve\<close> answers with two rows.
\<close>

definition example_corpus :: "py_value list" where
  "example_corpus =
     [PDict [(''id'', PInt 0), (''text'', PStr ''alpha beta'')],
      PDict [(''id'', PInt 1), (''text'', PStr ''beta gamma'')]]"

definition example_library :: "(py_value list, py_value, string list) library" where
  "example_library =
     \<lparr>BM25_load =
        (\<lambda>dirpath lc mm.
           if dirpath = PStr ''index''
           then Inr \<lparr>scores = [(''num_docs'', PInt 2)],
                     internals = (if truthy lc then example_corpus else [PInt 1, PInt 0])\<rparr>
           else Inl (FileNotFoundError ''params.index.json'')),
      Stemmer = (\<lambda>lang. Inr lang),
      tokenize = (\<lambda>query st. Inr [query]),
      retrieve = (\<lambda>ix toks k r. Inr [take (nat k) (internals ix), rev (internals ix)])\<rparr>"

definition example_store :: "py_value \<Rightarrow> (py_value list, py_value) BM25S_DocumentStore" where
  "example_store lc =
     \<lparr>corpus_dirpath = PStr ''index'', load_corpus = lc, mmap = PBool True,
      stemmer_lang = PStr ''english'',
      bm25s = \<lparr>scores = [(''num_docs'', PInt 2)],
               internals = (if truthy lc then example_corpus else [PInt 1, PInt 0])\<rparr>,
      stemmer = PStr ''english''\<rparr>"

section \<open>Mutation and filtering are refused\<close>

text \<open>
  C1. For every list of documents and every duplicate policy, \<open>write_documents\<close> raises
  the generic exception with the message \<open>bm25s is immutable\<close>; \<open>delete_documents\<close>
  raises the same exception for every list of document ids. In both cases the store
  after the call is the store before it.
\<close>

theorem write_delete_immutable:
  "write_documents self documents policy = (Inl (Exception ''bm25s is immutable''), self)
   \<and> delete_documents self document_ids = (Inl (Exception ''bm25s is immutable''), self)
   \<and> (\<nexists>written. fst (write_documents self documents policy) = Inr written)
   \<and> (\<nexists>res. fst (delete_documents self document_ids) = Inr res)"
  by (simp add: write_documents_def delete_documents_def)

text \<open>
  C2. For every filter argument, the default \<open>None\<close> included, \<open>filter_documents\<close>
  raises \<open>NotImplementedError\<close>: it returns no list of documents, and the store is
  unchanged.
\<close>

theorem filter_documents_unimplemented:
  "filter_documents self filters = (Inl NotImplementedError, self)
   \<and> filter_documents self PNone = (Inl NotImplementedError, self)
   \<and> (\<nexists>docs. fst (filter_documents self filters) = Inr docs)"
  by (simp add: filter_documents_def)

section \<open>Counting\<close>

text \<open>
  C3. \<open>count_documents\<close> returns exactly the value stored under \<open>num_docs\<close> in the
  \<open>scores\<close> of the wrapped index: with that field in place it raises nothing, and the
  store after the call is the store before it.
\<close>

theorem count_documents_reads_num_docs:
  "map_of (scores (bm25s self)) ''num_docs'' = Some n \<Longrightarrow>
   count_documents self = (Inr n, self)"
  by (simp add: count_documents_def)

theorem count_documents_reads_num_docs_witness:
  "map_of (scores (bm25s (example_store (PBool True)))) ''num_docs'' = Some (PInt 2)
   \<and> count_documents (example_store (PBool True)) = (Inr (PInt 2), example_store (PBool True))"
proof -
  have h: "map_of (scores (bm25s (example_store (PBool True)))) ''num_docs'' = Some (PInt 2)"
    by (simp add: example_store_def)
  from count_documents_reads_num_docs [OF h] h show ?thesis by simp
qed

text \<open>
  The index of a constructed store is the one that the library's \<open>load\<close> returned, and
  the lookup is a plain subscription: on an index without the field it raises
  \<open>KeyError\<close>.
\<close>

lemma init_fields:
  "BM25S_DocumentStore_init lib a b c d = Inr store \<Longrightarrow>
   corpus_dirpath store = a \<and> load_corpus store = b \<and> mmap store = c \<and> stemmer_lang store = d
   \<and> BM25_load lib a b c = Inr (bm25s store) \<and> Stemmer lib d = Inr (stemmer store)"
  by (auto simp: BM25S_DocumentStore_init_def split: sum.splits)

lemma count_documents_missing_field:
  "map_of (scores (bm25s self)) ''num_docs'' = None \<Longrightarrow>
   count_documents self = (Inl (KeyError ''num_docs''), self)"
  by (simp add: count_documents_def)

section \<open>Construction and serialisation\<close>

lemma call_with_keywords:
  "BM25S_DocumentStore_call lib []
     [(''corpus_dirpath'', a), (''load_corpus'', b), (''mmap'', c), (''stemmer_lang'', d)] =
   BM25S_DocumentStore_init lib a b c d"
  by (simp add: BM25S_DocumentStore_call_def argument_def)

lemma init_again:
  "BM25S_DocumentStore_init lib a b c d = Inr store \<Longrightarrow>
   BM25S_DocumentStore_init lib (corpus_dirpath store) (load_corpus store) (mmap store)
     (stemmer_lang store) = Inr store"
  by (auto simp: BM25S_DocumentStore_init_def split: sum.splits)

lemma example_store_constructed:
  "BM25S_DocumentStore_call example_library [PStr ''index'', lc] [] = Inr (example_store lc)"
  by (simp add: BM25S_DocumentStore_call_def argument_def BM25S_DocumentStore_init_def
      example_library_def example_store_def)

text \<open>
  C5. Serialisation round trip. With the framework's helpers meeting their contract,
  \<open>from_dict (to_dict store)\<close> is the constructor called again with the four
  configuration fields of \<open>store\<close>: \<open>to_dict\<close> serialises exactly \<open>corpus_dirpath\<close>,
  \<open>load_corpus\<close>, \<open>mmap\<close> and \<open>stemmer_lang\<close>, and \<open>from_dict\<close> passes them back as
  keyword arguments. Every store it constructs has these four fields equal to the
  original's, and for a store that the constructor built on this library it does
  construct one, equal to the original.
\<close>

theorem serialization_roundtrip:
  "serialization_contract fw \<Longrightarrow>
   from_dict fw lib (fst (to_dict fw self)) =
     BM25S_DocumentStore_init lib (corpus_dirpath self) (load_corpus self) (mmap self)
       (stemmer_lang self)
   \<and> (\<forall>store'. from_dict fw lib (fst (to_dict fw self)) = Inr store' \<longrightarrow>
         corpus_dirpath store' = corpus_dirpath self \<and> load_corpus store' = load_corpus self
         \<and> mmap store' = mmap self \<and> stemmer_lang store' = stemmer_lang self)
   \<and> (\<forall>a b c d. BM25S_DocumentStore_init lib a b c d = Inr self \<longrightarrow>
         from_dict fw lib (fst (to_dict fw self)) = Inr self)"
proof -
  assume c: "serialization_contract fw"
  have eq: "from_dict fw lib (fst (to_dict fw self)) =
     BM25S_DocumentStore_init lib (corpus_dirpath self) (load_corpus self) (mmap self)
       (stemmer_lang self)"
    using c by (simp add: from_dict_def to_dict_def serialization_contract_def call_with_keywords)
  show ?thesis
    unfolding eq using init_fields init_again by blast
qed

theorem serialization_roundtrip_witness:
  "serialization_contract (haystack_framework :: (py_value list, py_value) framework)
   \<and> BM25S_DocumentStore_init example_library (PStr ''index'') (PBool False) (PBool True)
         (PStr ''english'') = Inr (example_store (PBool False))
   \<and> from_dict haystack_framework example_library
         (fst (to_dict haystack_framework (example_store (PBool False)))) =
       Inr (example_store (PBool False))"
proof -
  have c: "serialization_contract (haystack_framework :: (py_value list, py_value) framework)"
    by (simp add: serialization_contract_def haystack_framework_def)
  have i: "BM25S_DocumentStore_init example_library (PStr ''index'') (PBool False) (PBool True)
         (PStr ''english'') = Inr (example_store (PBool False))"
    by (simp add: BM25S_DocumentStore_init_def example_library_def example_store_def)
  from serialization_roundtrip [OF c, of example_library "example_store (PBool False)"] c i
  show ?thesis by blast
qed

text \<open>
  C6. The fixture of the test module calls the class with no argument, while the
  constructor has the parameter \<open>corpus_dirpath\<close> without a default: whatever the
  library, the call raises the \<open>TypeError\<close> of a missing argument and constructs no
  store.
\<close>

theorem docstore_fixture_fails:
  "docstore lib = Inl (TypeError (Missing_argument ''corpus_dirpath''))
   \<and> (\<nexists>store. docstore lib = Inr store)"
  by (simp add: docstore_def BM25S_DocumentStore_call_def argument_def)

section \<open>The store never changes\<close>

lemma perform_unchanged: "perform fw self op = self"
  by (cases op)
    (simp_all add: count_documents_def filter_documents_def write_documents_def
      delete_documents_def to_dict_def)

text \<open>
  C7. Each public method of the store (\<open>count_documents\<close>, \<open>filter_documents\<close>,
  \<open>write_documents\<close>, \<open>delete_documents\<close>, \<open>to_dict\<close>) leaves the store, its wrapped
  index included, as it was. So the store after any sequence of such calls is the
  store before it, and \<open>count_documents\<close> gives the same result before and after.
\<close>

theorem store_operations_preserve_state:
  "snd (count_documents self) = self
   \<and> snd (filter_documents self filters) = self
   \<and> snd (write_documents self documents policy) = self
   \<and> snd (delete_documents self document_ids) = self
   \<and> snd (to_dict fw self) = self
   \<and> perform_all fw self ops = self
   \<and> fst (count_documents (perform_all fw self ops)) = fst (count_documents self)"
proof -
  have "perform_all fw self ops = self"
    unfolding perform_all_def by (induction ops) (simp_all add: perform_unchanged)
  then show ?thesis
    by (simp add: count_documents_def filter_documents_def write_documents_def
        delete_documents_def to_dict_def)
qed

section \<open>Retrieval\<close>

text \<open>
  C8. The retriever's constructor checks nothing: for every integer \<open>top_k\<close>, zero and
  the negative ones included, it succeeds and stores the number as given. In particular
  it raises no \<open>ValueError\<close>, although its docstring announces one for a \<open>top_k\<close> that
  is not positive.
\<close>

theorem retriever_init_no_validation:
  "BM25S_Retriever_init store k = Inr \<lparr>document_store = store, top_k = k\<rparr>
   \<and> BM25S_Retriever_init store 0 = Inr \<lparr>document_store = store, top_k = 0\<rparr>
   \<and> BM25S_Retriever_init store (- 1) = Inr \<lparr>document_store = store, top_k = - 1\<rparr>
   \<and> (\<nexists>msg. BM25S_Retriever_init store k = Inl (ValueError msg))"
  by (simp add: BM25S_Retriever_init_def)

text \<open>
  C4. For every query, \<open>run\<close> first calls the library's \<open>tokenize\<close> on the query with
  the store's stemmer and then, with the tokens it got, the wrapped index's \<open>retrieve\<close>
  with \<open>k\<close> the retriever's \<open>top_k\<close>; these are all the library calls it makes. Its
  result is what the library raised or, after a successful retrieval, the documents
  made from the rows that came back: two libraries that answer these two calls alike
  give the same result, so nothing is tokenised, stemmed or scored by the adapter.
\<close>

theorem run_delegates_to_library:
  "snd (run_traced lib self query) =
     (case tokenize lib query (stemmer (document_store self)) of
        Inl e \<Rightarrow> [Tokenize query (stemmer (document_store self))]
      | Inr toks \<Rightarrow>
          [Tokenize query (stemmer (document_store self)),
           Retrieve (bm25s (document_store self)) toks (top_k self) ''documents''])
   \<and> run lib self query =
     (case tokenize lib query (stemmer (document_store self)) of
        Inl e \<Rightarrow> Inl e
      | Inr toks \<Rightarrow>
          (case retrieve lib (bm25s (document_store self)) toks (top_k self) ''documents'' of
             Inl e \<Rightarrow> Inl e
           | Inr rows \<Rightarrow> documents_of_rows (load_corpus (document_store self)) rows))
   \<and> (tokenize lib' query (stemmer (document_store self)) =
         tokenize lib query (stemmer (document_store self))
       \<and> (\<forall>toks. retrieve lib' (bm25s (document_store self)) toks (top_k self) ''documents'' =
                  retrieve lib (bm25s (document_store self)) toks (top_k self) ''documents'')
       \<longrightarrow> run lib' self query = run lib self query)"
  by (auto simp: run_def run_traced_def split: sum.splits)

theorem run_delegates_to_library_witness:
  "snd (run_traced example_library
          \<lparr>document_store = example_store (PBool True), top_k = 1\<rparr> ''beta'') =
     [Tokenize ''beta'' (PStr ''english''),
      Retrieve (bm25s (example_store (PBool True))) [''beta''] 1 ''documents'']
   \<and> run example_library \<lparr>document_store = example_store (PBool True), top_k = 1\<rparr> ''beta'' =
     Inr [\<lparr>doc_id = Generated (Some (PStr ''alpha beta'')),
            content = Some (PStr ''alpha beta'')\<rparr>]
   \<and> run (example_library\<lparr>Stemmer := (\<lambda>lang. Inl (KeyError ''english''))\<rparr>)
         \<lparr>document_store = example_store (PBool True), top_k = 1\<rparr> ''beta'' =
       run example_library \<lparr>document_store = example_store (PBool True), top_k = 1\<rparr> ''beta''"
  using run_delegates_to_library
    [of example_library "\<lparr>document_store = example_store (PBool True), top_k = 1\<rparr>" "''beta''"
      "example_library\<lparr>Stemmer := (\<lambda>lang. Inl (KeyError ''english''))\<rparr>"]
  by (simp add: example_library_def example_store_def example_corpus_def documents_of_rows_def
      first_row_def Document_new_def)

subsection \<open>The documents of a run\<close>

lemma content_documents_texts:
  "map (\<lambda>doc. getitem doc ''text'') row = map Inr texts \<Longrightarrow>
   content_documents row = Inr (map (\<lambda>text. Document_new None (Some text)) texts)"
proof (induction row arbitrary: texts)
  case Nil
  then show ?case by simp
next
  case (Cons doc row)
  then obtain t ts where ts: "texts = t # ts" by (cases texts) auto
  with Cons.prems have "getitem doc ''text'' = Inr t"
    and "map (\<lambda>doc. getitem doc ''text'') row = map Inr ts" by simp_all
  with Cons.IH [of ts] ts show ?case by simp
qed

lemma content_documents_missing_text:
  "getitem doc ''text'' = Inl e \<Longrightarrow> content_documents (doc # row) = Inl e"
  by simp

lemma content_documents_length:
  "content_documents row = Inr docs \<Longrightarrow> length docs = length row"
  by (induction row arbitrary: docs) (auto split: sum.splits)

lemma example_tokenize:
  "tokenize example_library query (stemmer (example_store lc)) = Inr [query]"
  by (simp add: example_library_def)


lemma example_retrieve_indices:
  "retrieve example_library (bm25s (example_store (PBool False))) toks 2 ''documents'' =
     Inr ([PInt 1, PInt 0] # [[PInt 0, PInt 1]])"
  by (simp add: example_library_def example_store_def numeral_2_eq_2)





text \<open>
  C10. \<open>run\<close> takes its results from the first row of what \<open>retrieve\<close> returned and
  from nothing else: the result is that of the first row alone, whatever rows follow.
  A list it returns has exactly one \<open>Document\<close> per entry of that row, hence at most
  \<open>top_k\<close> when the row has at most \<open>top_k\<close> entries; and it does return a list when
  the corpus is not loaded, or when every record of the row has a \<open>text\<close> field.
\<close>

theorem run_first_row_only:
  assumes "tokenize lib query (stemmer (document_store self)) = Inr toks"
    and "retrieve lib (bm25s (document_store self)) toks (top_k self) ''documents'' =
           Inr (row # rest)"
  shows "run lib self query = documents_of_rows (load_corpus (document_store self)) [row]
       \<and> (\<forall>docs. run lib self query = Inr docs \<longrightarrow>
             length docs = length row
             \<and> (int (length row) \<le> top_k self \<longrightarrow> int (length docs) \<le> top_k self))
       \<and> (\<not> truthy (load_corpus (document_store self)) \<longrightarrow>
             (\<exists>docs. run lib self query = Inr docs))
       \<and> (truthy (load_corpus (document_store self))
            \<and> (\<exists>texts. map (\<lambda>doc. getitem doc ''text'') row = map Inr texts) \<longrightarrow>
             (\<exists>docs. run lib self query = Inr docs))"
proof -
  have eq: "run lib self query = documents_of_rows (load_corpus (document_store self)) [row]"
    using assms by (simp add: run_def run_traced_def documents_of_rows_def first_row_def)
  have len: "length docs = length row"
    if "documents_of_rows (load_corpus (document_store self)) [row] = Inr docs" for docs
    using that content_documents_length [of row docs]
    by (auto simp: documents_of_rows_def first_row_def id_documents_def split: if_splits)
  have ret: "\<exists>docs. documents_of_rows (load_corpus (document_store self)) [row] = Inr docs"
    if "\<not> truthy (load_corpus (document_store self))"
    using that by (simp add: documents_of_rows_def first_row_def)
  have ret': "\<exists>docs. documents_of_rows (load_corpus (document_store self)) [row] = Inr docs"
    if "truthy (load_corpus (document_store self))"
      and "\<exists>texts. map (\<lambda>doc. getitem doc ''text'') row = map Inr texts"
    using that content_documents_texts [of row]
    by (auto simp: documents_of_rows_def first_row_def)
  show ?thesis unfolding eq using len ret ret' by auto
qed

theorem run_first_row_only_witness:
  "tokenize example_library ''beta'' (stemmer (example_store (PBool False))) = Inr [''beta'']
   \<and> retrieve example_library (bm25s (example_store (PBool False))) [''beta''] 2 ''documents'' =
       Inr ([PInt 1, PInt 0] # [[PInt 0, PInt 1]])
   \<and> (\<exists>docs. run example_library
               \<lparr>document_store = example_store (PBool False), top_k = 2\<rparr> ''beta'' = Inr docs
             \<and> length docs = 2)"
proof -
  have t: "tokenize example_library ''beta''
             (stemmer (document_store \<lparr>document_store = example_store (PBool False), top_k = 2\<rparr>)) =
           Inr [''beta'']"
    by (simp add: example_tokenize)
  have r: "retrieve example_library
             (bm25s (document_store \<lparr>document_store = example_store (PBool False), top_k = 2\<rparr>))
             [''beta''] (top_k \<lparr>document_store = example_store (PBool False), top_k = 2\<rparr>)
             ''documents'' =
           Inr ([PInt 1, PInt 0] # [[PInt 0, PInt 1]])"
    by (simp add: example_retrieve_indices)
  have f: "\<not> truthy (load_corpus (document_store
              \<lparr>document_store = example_store (PBool False), top_k = 2\<rparr>))"
    by (simp add: example_store_def)
  from run_first_row_only [OF t r] f
  obtain docs where
    "run example_library \<lparr>document_store = example_store (PBool False), top_k = 2\<rparr> ''beta'' =
       Inr docs" and "length docs = length [PInt 1, PInt 0 :: py_value]"
    by blast
  with t r show ?thesis by simp
qed

end
